theory Spec2Isabelle
  imports Complex_Main "HOL-Library.Multiset"
begin

section \<open>Python values\<close>

text \<open>
  Python integers are unbounded: they are \<^typ>\<open>int\<close>.

  A Python \<open>float\<close> is an IEEE 754 double. Only its order against the literal
  \<open>0.5\<close> is ever used by the program, and that comparison is exact, so a float is
  modelled by its exact value: a finite double is the rational number it denotes
  (\<open>Fin\<close>; the type is wider than the doubles, every double is in it), and the
  three special values are constructors of their own.
\<close>

datatype pyfloat = Fin rat | PInf | NInf | NaN

text \<open>The operator \<open>a > b\<close> on floats: false as soon as one side is NaN.\<close>

fun py_gt :: "pyfloat \<Rightarrow> pyfloat \<Rightarrow> bool" where
  "py_gt NaN b = False"
| "py_gt a NaN = False"
| "py_gt (Fin x) (Fin y) = (y < x)"
| "py_gt (Fin x) PInf = False"
| "py_gt (Fin x) NInf = True"
| "py_gt PInf PInf = False"
| "py_gt PInf b = True"
| "py_gt NInf b = False"

text \<open>
  The exceptions the modelled functions can end with. \<open>sys.exit(1)\<close> raises
  \<open>SystemExit(1)\<close>, which no \<open>except Exception\<close> handler of the program catches.
\<close>

datatype error = SystemExit int | IndexError | ValueError | RuntimeError

section \<open>Exon edges from junction records\<close>

text \<open>
  \<open>identify_exon_edges\<close> of \<open>Genomic_Analysis_Tool.py\<close> (and its two copies in
  \<open>Genomic_Anlysis_Tool_V2.py\<close>, the same text line for line):
  \<^verbatim>\<open>
    junctions.sort(key=lambda x: x[0])
    exon_edges = []
    current_start = None
    current_end = None
    for start, end, coverage in junctions:
        if coverage > 0.5:
            if current_start is None:
                current_start = start
            current_end = end
        elif current_start is not None:
            exon_edges.append((current_start, current_end))
            current_start = None
            current_end = None
    if current_start is not None:
        exon_edges.append((current_start, current_end))
    return exon_edges
  \<close>
  A junction is the tuple \<open>(start, end, coverage)\<close>. An edge is the tuple
  \<open>(current_start, current_end)\<close> appended where \<open>current_start\<close> is known not to be
  \<open>None\<close>; \<open>current_end\<close> is stored as the variable holds it.
\<close>

type_synonym junction = "int \<times> int \<times> pyfloat"

type_synonym edge = "int \<times> int option"

record loop_state =
  exon_edges :: "edge list"
  current_start :: "int option"
  current_end :: "int option"

definition initial_state :: loop_state where
  "initial_state = \<lparr>exon_edges = [], current_start = None, current_end = None\<rparr>"

text \<open>One iteration of the \<open>for\<close> loop.\<close>

fun edge_step :: "loop_state \<Rightarrow> junction \<Rightarrow> loop_state" where
  "edge_step st (start, end, coverage) =
     (if py_gt coverage (Fin (1 / 2)) then
        st\<lparr>current_start := (case current_start st of None \<Rightarrow> Some start | Some s \<Rightarrow> Some s),
           current_end := Some end\<rparr>
      else
        (case current_start st of
           Some s \<Rightarrow>
             st\<lparr>exon_edges := exon_edges st @ [(s, current_end st)],
                current_start := None, current_end := None\<rparr>
         | None \<Rightarrow> st))"

text \<open>The \<open>for\<close> loop over the junctions, in list order.\<close>

fun edge_loop :: "loop_state \<Rightarrow> junction list \<Rightarrow> loop_state" where
  "edge_loop st [] = st"
| "edge_loop st (j # js) = edge_loop (edge_step st j) js"

text \<open>The \<open>if\<close> after the loop and the \<open>return\<close>.\<close>

definition close_open :: "loop_state \<Rightarrow> edge list" where
  "close_open st =
     (case current_start st of
        Some s \<Rightarrow> exon_edges st @ [(s, current_end st)]
      | None \<Rightarrow> exon_edges st)"

text \<open>
  \<open>list.sort(key=...)\<close> is a stable sort by the key; \<^const>\<open>sort_key\<close> is the stable
  sort of the library (lemma \<open>python_sort_unique\<close> below: a sorted, stable rearrangement
  of a list is unique, so the sorting algorithm does not matter).
\<close>

definition python_sort :: "junction list \<Rightarrow> junction list" where
  "python_sort junctions = sort_key fst junctions"

text \<open>
  The function from the \<open>sort\<close> on: what the specification calls
  \<open>infer_exon_edges\<close>, on records already read from the feed.
\<close>

definition exon_edges_of_junctions :: "junction list \<Rightarrow> edge list" where
  "exon_edges_of_junctions junctions =
     close_open (edge_loop initial_state (python_sort junctions))"

section \<open>Strings\<close>

text \<open>
  A Python \<open>str\<close> is a sequence of code points; a \<^typ>\<open>string\<close> here is a sequence
  of code points below 256. In that range the decimal digits (what \<open>\d\<close> matches and
  \<open>int\<close> reads) are \<open>0\<close> to \<open>9\<close>, and the whitespace characters (what \<open>\s\<close>
  matches and \<open>str.strip\<close> removes) are the codes 9 to 13, 28 to 31, 32, 133 and 160.
\<close>

definition is_digit :: "char \<Rightarrow> bool" where
  "is_digit c = (48 \<le> (of_char c :: nat) \<and> (of_char c :: nat) \<le> 57)"

definition is_space :: "char \<Rightarrow> bool" where
  "is_space c = ((of_char c :: nat) \<in> {9, 10, 11, 12, 13, 28, 29, 30, 31, 32, 133, 160})"

definition digit_value :: "char \<Rightarrow> int" where
  "digit_value c = int (of_char c - 48)"

text \<open>
  The value of a run of digits read in base 10, most significant digit first.
\<close>

definition int_of_digits :: "string \<Rightarrow> int" where
  "int_of_digits ds = foldl (\<lambda>n c. 10 * n + digit_value c) 0 ds"

text \<open>
  \<open>int(s)\<close> for a string \<open>s\<close> that a group \<open>(\d+)\<close> of the regular expression has
  matched, a non-empty run of digits. The interpreter converts a decimal string of at
  most \<open>sys.get_int_max_str_digits()\<close> digits, leading zeros counted, and raises
  \<open>ValueError\<close> for a longer one. The limit is 4300 unless the program or its
  environment changes it, and the program never does.
\<close>

definition int_max_str_digits :: nat where
  "int_max_str_digits = 4300"

definition py_int :: "string \<Rightarrow> error + int" where
  "py_int ds =
     (if int_max_str_digits < length ds then Inl ValueError else Inr (int_of_digits ds))"

section \<open>The coordinate parser\<close>

text \<open>
  \<^verbatim>\<open>
  def parse_genomic_coordinate(genomic_coordinate):
      match = re.match(r'^(chr\d+):(\d+)-(\d+)_(\S+)$', genomic_coordinate)
      if match:
          chromosome = match.group(1)
          start = match.group(2)
          end = match.group(3)
          strand = match.group(4)
          return chromosome, int(start), int(end), strand
      else:
          print("Invalid genomic coordinate format")
          sys.exit(1)
  \<close>
  The regular expression is a sequence of literals and of greedy repetitions
  \<open>\d+\<close>, \<open>\S+\<close>. Each repetition is followed by something that no character of its
  class can start (\<open>:\<close>, \<open>-\<close> and \<open>_\<close> are not digits; \<open>$\<close> holds only at the end of
  the string or before a newline that ends it, and a newline is whitespace), so a match,
  when there is one, takes the longest run at each repetition: the matcher reads the
  string left to right without backtracking. Without the \<open>MULTILINE\<close> flag, \<open>$\<close>
  matches at the end of the string and also just before a newline that is the last
  character of the string.
\<close>

text \<open>A literal: the rest of the string after it.\<close>

fun match_lit :: "string \<Rightarrow> string \<Rightarrow> string option" where
  "match_lit [] s = Some s"
| "match_lit (c # cs) [] = None"
| "match_lit (c # cs) (x # xs) = (if c = x then match_lit cs xs else None)"

text \<open>A greedy repetition \<open>P+\<close>: the longest run, which must not be empty, and the rest.\<close>

definition match_plus :: "(char \<Rightarrow> bool) \<Rightarrow> string \<Rightarrow> (string \<times> string) option" where
  "match_plus P s =
     (if takeWhile P s = [] then None else Some (takeWhile P s, dropWhile P s))"

text \<open>The anchor \<open>$\<close>, given the rest of the string.\<close>

definition match_end :: "string \<Rightarrow> bool" where
  "match_end s = (s = [] \<or> s = [CHR 0x0A])"

text \<open>The four groups of \<open>^(chr\d+):(\d+)-(\d+)_(\S+)$\<close>, or \<open>None\<close> when there is no match.\<close>

definition regex_match :: "string \<Rightarrow> (string \<times> string \<times> string \<times> string) option" where
  "regex_match s =
     (case match_lit ''chr'' s of None \<Rightarrow> None | Some r1 \<Rightarrow>
     (case match_plus is_digit r1 of None \<Rightarrow> None | Some (g1, r2) \<Rightarrow>
     (case match_lit '':'' r2 of None \<Rightarrow> None | Some r3 \<Rightarrow>
     (case match_plus is_digit r3 of None \<Rightarrow> None | Some (g2, r4) \<Rightarrow>
     (case match_lit ''-'' r4 of None \<Rightarrow> None | Some r5 \<Rightarrow>
     (case match_plus is_digit r5 of None \<Rightarrow> None | Some (g3, r6) \<Rightarrow>
     (case match_lit ''_'' r6 of None \<Rightarrow> None | Some r7 \<Rightarrow>
     (case match_plus (\<lambda>c. \<not> is_space c) r7 of None \<Rightarrow> None | Some (g4, r8) \<Rightarrow>
        if match_end r8 then Some (''chr'' @ g1, g2, g3, g4) else None))))))))"

text \<open>
  The result of a call: the lines it printed, and either the exception that ended it or
  the value it returned. In the \<open>return\<close> statement \<open>int(start)\<close> is evaluated
  before \<open>int(end)\<close>, and a \<open>ValueError\<close> of either ends the call.
\<close>

type_synonym locus = "string \<times> int \<times> int \<times> string"

definition parse_genomic_coordinate :: "string \<Rightarrow> string list \<times> (error + locus)" where
  "parse_genomic_coordinate genomic_coordinate =
     (case regex_match genomic_coordinate of
        Some (chromosome, start, end, strand) \<Rightarrow>
          (case py_int start of
             Inl e \<Rightarrow> ([], Inl e)
           | Inr start_value \<Rightarrow>
               (case py_int end of
                  Inl e \<Rightarrow> ([], Inl e)
                | Inr end_value \<Rightarrow> ([], Inr (chromosome, start_value, end_value, strand))))
      | None \<Rightarrow> ([''Invalid genomic coordinate format''], Inl (SystemExit 1)))"

text \<open>
  The copy in \<open>Analysis_Plot.py\<close> has the same regular expression and the same
  first branch; its second branch prints the same line and returns \<open>None\<close>.
\<close>

definition parse_genomic_coordinate_plot ::
  "string \<Rightarrow> string list \<times> (error + locus option)" where
  "parse_genomic_coordinate_plot genomic_coordinate =
     (case regex_match genomic_coordinate of
        Some (chromosome, start, end, strand) \<Rightarrow>
          (case py_int start of
             Inl e \<Rightarrow> ([], Inl e)
           | Inr start_value \<Rightarrow>
               (case py_int end of
                  Inl e \<Rightarrow> ([], Inl e)
                | Inr end_value \<Rightarrow>
                    ([], Inr (Some (chromosome, start_value, end_value, strand)))))
      | None \<Rightarrow> ([''Invalid genomic coordinate format''], Inr None))"

text \<open>
  The locus format in the specification's words: the literal \<open>chr\<close>, one or more
  digits, a colon, one or more digits, a hyphen, one or more digits, an underscore, and
  one or more characters that are not whitespace.
\<close>

definition locus_string :: "string \<Rightarrow> string \<Rightarrow> string \<Rightarrow> string \<Rightarrow> string" where
  "locus_string n a b t = ''chr'' @ n @ '':'' @ a @ ''-'' @ b @ ''_'' @ t"

definition digits :: "string \<Rightarrow> bool" where
  "digits ds = (ds \<noteq> [] \<and> list_all is_digit ds)"

definition token :: "string \<Rightarrow> bool" where
  "token t = (t \<noteq> [] \<and> list_all (\<lambda>c. \<not> is_space c) t)"

section \<open>Reading the junction feed\<close>

text \<open>
  The first two statements of \<open>identify_exon_edges\<close>:
  \<^verbatim>\<open>
  def identify_exon_edges(genomic_coordinate, junction_data):
      junctions = [line.split('\t') for line in junction_data.strip().split('\n')[1:]]
      junctions = [(int(j[3]), int(j[4]), float(j[14])) for j in junctions]
  \<close>
\<close>

definition py_strip :: "string \<Rightarrow> string" where
  "py_strip s = rev (dropWhile is_space (rev (dropWhile is_space s)))"

text \<open>
  \<open>s.split(sep)\<close> for a separator of one character: the pieces between the
  separators, empty pieces kept; \<open>acc\<close> is the current piece, reversed.
\<close>

fun split_acc :: "char \<Rightarrow> string \<Rightarrow> string \<Rightarrow> string list" where
  "split_acc sep acc [] = [rev acc]"
| "split_acc sep acc (x # xs) =
     (if x = sep then rev acc # split_acc sep [] xs else split_acc sep (x # acc) xs)"

definition py_split :: "char \<Rightarrow> string \<Rightarrow> string list" where
  "py_split sep s = split_acc sep [] s"

text \<open>\<open>j[i]\<close> on a list, for an index that is not negative.\<close>

definition field :: "string list \<Rightarrow> nat \<Rightarrow> error + string" where
  "field j i = (if i < length j then Inr (j ! i) else Inl IndexError)"

text \<open>
  The tuple \<open>(int(j[3]), int(j[4]), float(j[14]))\<close>, evaluated left to right. The
  built-in conversions \<open>int\<close> and \<open>float\<close> of arbitrary text are parameters
  (\<open>None\<close> where they raise \<open>ValueError\<close>): nothing proved below depends on which
  strings they accept.
\<close>

definition read_junction ::
  "(string \<Rightarrow> int option) \<Rightarrow> (string \<Rightarrow> pyfloat option) \<Rightarrow> string list \<Rightarrow> error + junction" where
  "read_junction to_int to_float j =
     (case field j 3 of Inl e \<Rightarrow> Inl e | Inr f3 \<Rightarrow>
     (case to_int f3 of None \<Rightarrow> Inl ValueError | Some start \<Rightarrow>
     (case field j 4 of Inl e \<Rightarrow> Inl e | Inr f4 \<Rightarrow>
     (case to_int f4 of None \<Rightarrow> Inl ValueError | Some end \<Rightarrow>
     (case field j 14 of Inl e \<Rightarrow> Inl e | Inr f14 \<Rightarrow>
     (case to_float f14 of None \<Rightarrow> Inl ValueError | Some coverage \<Rightarrow>
        Inr (start, end, coverage)))))))"

text \<open>The list comprehension: the first exception ends it.\<close>

fun read_junctions ::
  "(string \<Rightarrow> int option) \<Rightarrow> (string \<Rightarrow> pyfloat option) \<Rightarrow> string list list \<Rightarrow>
   error + junction list" where
  "read_junctions to_int to_float [] = Inr []"
| "read_junctions to_int to_float (j # js) =
     (case read_junction to_int to_float j of
        Inl e \<Rightarrow> Inl e
      | Inr r \<Rightarrow>
          (case read_junctions to_int to_float js of
             Inl e \<Rightarrow> Inl e
           | Inr rs \<Rightarrow> Inr (r # rs)))"

definition identify_exon_edges ::
  "(string \<Rightarrow> int option) \<Rightarrow> (string \<Rightarrow> pyfloat option) \<Rightarrow> string \<Rightarrow> string \<Rightarrow>
   error + edge list" where
  "identify_exon_edges to_int to_float genomic_coordinate junction_data =
     (case read_junctions to_int to_float
             (map (py_split (CHR 0x09)) (drop 1 (py_split (CHR 0x0A) (py_strip junction_data)))) of
        Inl e \<Rightarrow> Inl e
      | Inr junctions \<Rightarrow> Inr (exon_edges_of_junctions junctions))"

text \<open>
  \<open>identify_exon_edges\<close> of \<open>Genomic_Anlysis_Tool_V2.py\<close> (lines 163 to 181): the
  same statements in the same order.
\<close>

definition identify_exon_edges_V2 ::
  "(string \<Rightarrow> int option) \<Rightarrow> (string \<Rightarrow> pyfloat option) \<Rightarrow> string \<Rightarrow> string \<Rightarrow>
   error + edge list" where
  "identify_exon_edges_V2 to_int to_float genomic_coordinate junction_data =
     (case read_junctions to_int to_float
             (map (py_split (CHR 0x09)) (drop 1 (py_split (CHR 0x0A) (py_strip junction_data)))) of
        Inl e \<Rightarrow> Inl e
      | Inr junctions \<Rightarrow> Inr (exon_edges_of_junctions junctions))"

section \<open>Transcription abundance\<close>

text \<open>
  \<^verbatim>\<open>
  def measure_transcription_abundance(genomic_coordinate, bigwig_files):
      chromosome, start, end, _ = parse_genomic_coordinate(genomic_coordinate)
      abundance = []
      for bw_file in bigwig_files:
          bw = pyBigWig.open(bw_file)
          if bw is not None:
              values = bw.values(chromosome, start, end)
              if values:
                  abundance.append(sum(filter(lambda x: x is not None, values)))
              else:
                  abundance.append(0)
          else:
              print(f"Failed to open BigWig file: {bw_file}")
              sys.exit(1)
      return abundance
  \<close>
  The coverage-track library is a parameter: \<open>bw_open\<close> is \<open>pyBigWig.open\<close>
  (\<open>None\<close> when it returns \<open>None\<close>), and an open track is its method \<open>values\<close>,
  which returns one value or \<open>None\<close> per position, or raises. The values are numbers
  with an exact addition (any type with \<open>0\<close> and an associative \<open>+\<close>, the Python
  integers among them); the rounding of a sum of floats is not modelled.
\<close>

type_synonym 'a bigwig = "string \<Rightarrow> int \<Rightarrow> int \<Rightarrow> error + 'a option list"

text \<open>\<open>filter(lambda x: x is not None, values)\<close>.\<close>

fun present :: "'a option list \<Rightarrow> 'a list" where
  "present [] = []"
| "present (None # vs) = present vs"
| "present (Some v # vs) = v # present vs"

text \<open>\<open>sum(xs)\<close>: starts at 0 and adds the elements left to right.\<close>

definition py_sum :: "'a::monoid_add list \<Rightarrow> 'a" where
  "py_sum xs = foldl (+) 0 xs"

text \<open>The \<open>if values: ... else: ...\<close> of the loop body: the number appended for one track.\<close>

definition track_abundance :: "'a::monoid_add option list \<Rightarrow> 'a" where
  "track_abundance values = (if values \<noteq> [] then py_sum (present values) else 0)"

fun abundance_loop ::
  "(string \<Rightarrow> 'a::monoid_add bigwig option) \<Rightarrow> string \<Rightarrow> int \<Rightarrow> int \<Rightarrow> 'a list \<Rightarrow> string list \<Rightarrow>
   string list \<times> (error + 'a list)" where
  "abundance_loop bw_open chromosome start end abundance [] = ([], Inr abundance)"
| "abundance_loop bw_open chromosome start end abundance (bw_file # files) =
     (case bw_open bw_file of
        Some bw \<Rightarrow>
          (case bw chromosome start end of
             Inl e \<Rightarrow> ([], Inl e)
           | Inr values \<Rightarrow>
               abundance_loop bw_open chromosome start end
                 (abundance @ [track_abundance values]) files)
      | None \<Rightarrow> ([''Failed to open BigWig file: '' @ bw_file], Inl (SystemExit 1)))"

definition measure_transcription_abundance ::
  "(string \<Rightarrow> 'a::monoid_add bigwig option) \<Rightarrow> string \<Rightarrow> string list \<Rightarrow>
   string list \<times> (error + 'a list)" where
  "measure_transcription_abundance bw_open genomic_coordinate bigwig_files =
     (case parse_genomic_coordinate genomic_coordinate of
        (out, Inl e) \<Rightarrow> (out, Inl e)
      | (out, Inr (chromosome, start, end, strand)) \<Rightarrow>
          (case abundance_loop bw_open chromosome start end [] bigwig_files of
             (out2, r) \<Rightarrow> (out @ out2, r)))"

section \<open>Auxiliary notions for the proofs\<close>

text \<open>
  The starts at which the intervals of a loop state were opened: those of the edges
  already appended, then that of the interval still open.
\<close>

definition opening_starts :: "loop_state \<Rightarrow> int list" where
  "opening_starts st =
     map fst (exon_edges st) @ (case current_start st of None \<Rightarrow> [] | Some s \<Rightarrow> [s])"

section \<open>Properties of the loop\<close>

lemma python_sort_unique:
  assumes "mset ys = mset xs"
    and "\<And>k. k \<in> set ys \<Longrightarrow> filter (\<lambda>x. fst k = fst x) ys = filter (\<lambda>x. fst k = fst x) xs"
    and "sorted (map fst ys)"
  shows "python_sort xs = ys"
  unfolding python_sort_def using assms by (rule properties_for_sort_key)

lemma python_sort_set: "set (python_sort js) = set js"
  by (simp add: python_sort_def)

lemma python_sort_Nil: "python_sort js = [] \<longleftrightarrow> js = []"
  unfolding python_sort_def by (metis length_sort length_0_conv)

lemma edge_loop_none_qualify:
  "current_start st = None \<Longrightarrow> \<forall>j \<in> set js. \<not> py_gt (snd (snd j)) (Fin (1 / 2)) \<Longrightarrow>
   edge_loop st js = st"
  by (induction js arbitrary: st) (auto split: prod.splits)

lemma edge_loop_all_qualify:
  "js \<noteq> [] \<Longrightarrow> \<forall>j \<in> set js. py_gt (snd (snd j)) (Fin (1 / 2)) \<Longrightarrow>
   edge_loop st js =
     st\<lparr>current_start :=
          (case current_start st of None \<Rightarrow> Some (fst (hd js)) | Some a \<Rightarrow> Some a),
        current_end := Some (fst (snd (last js)))\<rparr>"
proof (induction js arbitrary: st)
  case Nil
  then show ?case by simp
next
  case (Cons j js)
  obtain s e c where j: "j = (s, e, c)" by (cases j) auto
  show ?case
  proof (cases "js = []")
    case True
    with Cons.prems j show ?thesis by (simp split: option.splits)
  next
    case False
    with Cons j show ?thesis by (simp split: option.splits)
  qed
qed

lemma close_open_starts: "map fst (close_open st) = opening_starts st"
  by (simp add: close_open_def opening_starts_def split: option.splits)

lemma sorted_drop_middle: "sorted (xs @ y # ys) \<Longrightarrow> sorted (xs @ (ys :: int list))"
  by (auto simp: sorted_append)

lemma edge_step_starts:
  "opening_starts (edge_step st (s, e, c)) = opening_starts st \<or>
   opening_starts (edge_step st (s, e, c)) = opening_starts st @ [s]"
  by (simp add: opening_starts_def split: option.splits)

lemma edge_loop_starts_sorted:
  "sorted (opening_starts st @ map fst js) \<Longrightarrow> sorted (opening_starts (edge_loop st js))"
proof (induction js arbitrary: st)
  case Nil
  then show ?case by simp
next
  case (Cons j js)
  obtain s e c where j: "j = (s, e, c)" by (cases j) auto
  have "sorted (opening_starts (edge_step st j) @ map fst js)"
    using edge_step_starts [of st s e c] Cons.prems
      sorted_drop_middle [of "opening_starts st" s "map fst js"]
    by (auto simp: j)
  then show ?case using Cons.IH by simp
qed

text \<open>
  Whenever an interval is open the running end is set, so every edge returned has an
  end: the \<open>None\<close> of \<open>current_end\<close> never reaches the result.
\<close>

lemma edge_loop_ends_defined:
  "(current_start st \<noteq> None \<longrightarrow> current_end st \<noteq> None) \<Longrightarrow>
   \<forall>e \<in> set (exon_edges st). snd e \<noteq> None \<Longrightarrow>
   (current_start (edge_loop st js) \<noteq> None \<longrightarrow> current_end (edge_loop st js) \<noteq> None) \<and>
   (\<forall>e \<in> set (exon_edges (edge_loop st js)). snd e \<noteq> None)"
proof (induction js arbitrary: st)
  case Nil
  then show ?case by simp
next
  case (Cons j js)
  obtain s e c where j: "j = (s, e, c)" by (cases j) auto
  have a: "current_start (edge_step st j) \<noteq> None \<longrightarrow> current_end (edge_step st j) \<noteq> None"
    using Cons.prems by (auto simp: j split: option.splits)
  have b: "\<forall>e \<in> set (exon_edges (edge_step st j)). snd e \<noteq> None"
    using Cons.prems by (auto simp: j split: option.splits)
  from Cons.IH [OF a b] show ?case by simp
qed

lemma exon_edges_have_ends:
  "e \<in> set (exon_edges_of_junctions js) \<Longrightarrow> snd e \<noteq> None"
  using edge_loop_ends_defined [of initial_state "python_sort js"]
  by (auto simp: exon_edges_of_junctions_def close_open_def initial_state_def split: option.splits)

text \<open>
  C1. A record above the threshold overwrites the running end with its own end,
  whatever the running end was. So two records above the threshold, in sorted order,
  give the single edge from the first start to the second end, also when the second
  end is the smaller one; the records \<open>(100, 300, 1.0)\<close>, \<open>(110, 120, 1.0)\<close> give
  the single edge \<open>(100, 120)\<close>.
\<close>

theorem C1_overwrite_not_max:
  "(py_gt c (Fin (1 / 2)) \<longrightarrow> current_end (edge_step st (s, e, c)) = Some e)
   \<and> (s1 \<le> s2 \<and> py_gt c1 (Fin (1 / 2)) \<and> py_gt c2 (Fin (1 / 2)) \<longrightarrow>
        exon_edges_of_junctions [(s1, e1, c1), (s2, e2, c2)] = [(s1, Some e2)])
   \<and> exon_edges_of_junctions [(100, 300, Fin 1), (110, 120, Fin 1)] = [(100, Some 120)]"
  by (simp add: exon_edges_of_junctions_def python_sort_def close_open_def initial_state_def)

theorem C1_witness:
  "current_end (edge_step \<lparr>exon_edges = [], current_start = Some 100, current_end = Some 300\<rparr>
      (110, 120, Fin 1)) = Some 120
   \<and> exon_edges_of_junctions [(5, 90, Fin 2), (5, 10, Fin (3 / 4))] = [(5, Some 10)]"
proof -
  have a: "py_gt (Fin 1) (Fin (1 / 2))" by simp
  have b: "(5::int) \<le> 5 \<and> py_gt (Fin 2) (Fin (1 / 2)) \<and> py_gt (Fin (3 / 4)) (Fin (1 / 2))"
    by simp
  note t = C1_overwrite_not_max
  from t [THEN conjunct1, THEN mp, OF a] t [THEN conjunct2, THEN conjunct1, THEN mp, OF b]
  show ?thesis by blast
qed


text \<open>
  C3. The records are first sorted by start: the sorted list is ascending by start, is
  a rearrangement of the input, and keeps records of equal start in their input order.
  The loop runs over that list, and the edges it returns are ascending by their
  opening start.
\<close>

theorem C3_stable_sort_then_ascending_edges:
  "sorted (map fst (python_sort junctions))
   \<and> mset (python_sort junctions) = mset junctions
   \<and> (\<forall>k. filter (\<lambda>j. fst j = k) (python_sort junctions) = filter (\<lambda>j. fst j = k) junctions)
   \<and> exon_edges_of_junctions junctions
       = close_open (edge_loop initial_state (python_sort junctions))
   \<and> sorted (map fst (exon_edges_of_junctions junctions))"
proof (intro conjI allI)
  show s: "sorted (map fst (python_sort junctions))"
    by (simp add: python_sort_def)
  show "mset (python_sort junctions) = mset junctions"
    by (simp add: python_sort_def)
  show "filter (\<lambda>j. fst j = k) (python_sort junctions) = filter (\<lambda>j. fst j = k) junctions" for k
    unfolding python_sort_def by (rule sort_key_stable)
  show "exon_edges_of_junctions junctions
       = close_open (edge_loop initial_state (python_sort junctions))"
    by (simp add: exon_edges_of_junctions_def)
  have "sorted (opening_starts initial_state @ map fst (python_sort junctions))"
    using s by (simp add: opening_starts_def initial_state_def)
  then show "sorted (map fst (exon_edges_of_junctions junctions))"
    unfolding exon_edges_of_junctions_def close_open_starts by (rule edge_loop_starts_sorted)
qed

text \<open>
  C4. When the list is not empty and every record has coverage above 0.5, the result
  is one edge: from the start of the first sorted record to the end of the last sorted
  record. It is appended by the \<open>if\<close> after the loop, the loop itself having
  appended nothing. The records \<open>(100, 150, 1.0)\<close>, \<open>(150, 200, 2.0)\<close>,
  \<open>(200, 250, 0.3)\<close> give exactly the edge \<open>(100, 200)\<close>.
\<close>

theorem C4_all_qualifying_single_edge:
  "(junctions \<noteq> [] \<and> (\<forall>j \<in> set junctions. py_gt (snd (snd j)) (Fin (1 / 2))) \<longrightarrow>
      exon_edges (edge_loop initial_state (python_sort junctions)) = [] \<and>
      exon_edges_of_junctions junctions =
        [(fst (hd (python_sort junctions)), Some (fst (snd (last (python_sort junctions)))))])
   \<and> exon_edges_of_junctions [(100, 150, Fin 1), (150, 200, Fin 2), (200, 250, Fin (3 / 10))]
       = [(100, Some 200)]"
proof (intro conjI impI)
  assume h: "junctions \<noteq> [] \<and> (\<forall>j \<in> set junctions. py_gt (snd (snd j)) (Fin (1 / 2)))"
  have ne: "python_sort junctions \<noteq> []"
    using h by (simp add: python_sort_Nil)
  have q: "\<forall>j \<in> set (python_sort junctions). py_gt (snd (snd j)) (Fin (1 / 2))"
    using h by (simp add: python_sort_set)
  show "exon_edges (edge_loop initial_state (python_sort junctions)) = []"
    unfolding edge_loop_all_qualify [OF ne q] by (simp add: initial_state_def)
  show "exon_edges_of_junctions junctions =
        [(fst (hd (python_sort junctions)), Some (fst (snd (last (python_sort junctions)))))]"
    unfolding exon_edges_of_junctions_def edge_loop_all_qualify [OF ne q]
    by (simp add: close_open_def initial_state_def)
next
  show "exon_edges_of_junctions [(100, 150, Fin 1), (150, 200, Fin 2), (200, 250, Fin (3 / 10))]
       = [(100, Some 200)]"
    by (simp add: exon_edges_of_junctions_def python_sort_def close_open_def initial_state_def)
qed

theorem C4_witness:
  "exon_edges_of_junctions [(7, 9, Fin 2), (3, 40, PInf), (5, 6, Fin (3 / 4))] = [(3, Some 9)]"
proof -
  have h: "[(7, 9, Fin 2), (3, 40, PInf), (5, 6, Fin (3 / 4))] \<noteq> [] \<and>
        (\<forall>j \<in> set [(7::int, 9::int, Fin 2), (3, 40, PInf), (5, 6, Fin (3 / 4))].
            py_gt (snd (snd j)) (Fin (1 / 2)))"
    by simp
  have s: "python_sort [(7, 9, Fin 2), (3, 40, PInf), (5, 6, Fin (3 / 4))]
      = [(3, 40, PInf), (5, 6, Fin (3 / 4)), (7, 9, Fin 2)]"
    by (simp add: python_sort_def)
  from C4_all_qualifying_single_edge [THEN conjunct1, THEN mp, OF h, THEN conjunct2]
  show ?thesis unfolding s by simp
qed

text \<open>
  C5. When no record has coverage strictly above 0.5 (the empty list included), the
  result is the empty list. The function is total on records: it has no failing path.
\<close>

theorem C5_no_qualifying_record_no_edge:
  "exon_edges_of_junctions [] = []
   \<and> ((\<forall>j \<in> set junctions. \<not> py_gt (snd (snd j)) (Fin (1 / 2))) \<longrightarrow>
        exon_edges_of_junctions junctions = [])"
proof (intro conjI impI)
  show "exon_edges_of_junctions [] = []"
    by (simp add: exon_edges_of_junctions_def python_sort_def close_open_def initial_state_def)
next
  assume h: "\<forall>j \<in> set junctions. \<not> py_gt (snd (snd j)) (Fin (1 / 2))"
  have "\<forall>j \<in> set (python_sort junctions). \<not> py_gt (snd (snd j)) (Fin (1 / 2))"
    using h by (simp add: python_sort_def)
  then have "edge_loop initial_state (python_sort junctions) = initial_state"
    by (intro edge_loop_none_qualify) (simp_all add: initial_state_def)
  then show "exon_edges_of_junctions junctions = []"
    by (simp add: exon_edges_of_junctions_def close_open_def initial_state_def)
qed

theorem C5_witness:
  "exon_edges_of_junctions [(3, 4, Fin (1 / 2)), (1, 2, NaN), (5, 9, Fin (3 / 10))] = []"
proof -
  have h: "\<forall>j \<in> set [(3, 4, Fin (1 / 2)), (1, 2, NaN), (5::int, 9::int, Fin (3 / 10))].
             \<not> py_gt (snd (snd j)) (Fin (1 / 2))"
    by simp
  from C5_no_qualifying_record_no_edge [THEN conjunct2, THEN mp, OF h] show ?thesis .
qed

section \<open>Properties of the coordinate parser\<close>

text \<open>
  The matcher accepts exactly the strings of the locus format, and those followed by one
  final newline (lemmas \<open>regex_match_locus\<close> and \<open>regex_match_SomeD\<close>); the groups
  it returns are the parts of the string.
\<close>

lemma match_lit_append: "match_lit p (p @ r) = Some r"
  by (induction p) auto

lemma match_lit_SomeD: "match_lit p s = Some r \<Longrightarrow> s = p @ r"
  by (induction p s rule: match_lit.induct) (auto split: if_splits)

lemma match_plus_run:
  assumes "g \<noteq> []" "list_all P g" "r = [] \<or> \<not> P (hd r)"
  shows "match_plus P (g @ r) = Some (g, r)"
proof -
  have r: "takeWhile P r = [] \<and> dropWhile P r = r"
    using assms(3) by (cases r) auto
  have g: "\<And>x. x \<in> set g \<Longrightarrow> P x"
    using assms(2) by (simp add: list_all_iff)
  show ?thesis
    using assms(1) by (simp add: match_plus_def takeWhile_append2 [OF g] dropWhile_append2 [OF g] r)
qed

lemma match_plus_SomeD:
  "match_plus P s = Some (g, r) \<Longrightarrow> s = g @ r \<and> g \<noteq> [] \<and> list_all P g"
  by (auto simp: match_plus_def list_all_iff split: if_splits dest: set_takeWhileD)

lemma not_digit_sep [simp]:
  "\<not> is_digit (CHR '':'')" "\<not> is_digit (CHR ''-'')" "\<not> is_digit (CHR ''_'')"
  by (simp_all add: is_digit_def)

lemma newline_is_space [simp]: "is_space (CHR 0x0A)"
  by (simp add: is_space_def)

lemma regex_match_locus:
  assumes "digits n" "digits a" "digits b" "token t" "e = [] \<or> e = [CHR 0x0A]"
  shows "regex_match (locus_string n a b t @ e) = Some (''chr'' @ n, a, b, t)"
proof -
  have 1: "match_lit ''chr'' (locus_string n a b t @ e)
      = Some (n @ CHR '':'' # a @ CHR ''-'' # b @ CHR ''_'' # t @ e)"
    by (simp add: locus_string_def)
  have 2: "match_plus is_digit (n @ CHR '':'' # a @ CHR ''-'' # b @ CHR ''_'' # t @ e)
      = Some (n, CHR '':'' # a @ CHR ''-'' # b @ CHR ''_'' # t @ e)"
    using assms(1) by (intro match_plus_run) (simp_all add: digits_def)
  have 3: "match_plus is_digit (a @ CHR ''-'' # b @ CHR ''_'' # t @ e)
      = Some (a, CHR ''-'' # b @ CHR ''_'' # t @ e)"
    using assms(2) by (intro match_plus_run) (simp_all add: digits_def)
  have 4: "match_plus is_digit (b @ CHR ''_'' # t @ e) = Some (b, CHR ''_'' # t @ e)"
    using assms(3) by (intro match_plus_run) (simp_all add: digits_def)
  have 5: "match_plus (\<lambda>c. \<not> is_space c) (t @ e) = Some (t, e)"
    using assms(4,5) by (intro match_plus_run) (auto simp: token_def)
  show ?thesis
    using assms(5) by (simp add: regex_match_def 1 2 3 4 5 match_end_def)
qed

lemma regex_match_SomeD:
  assumes "regex_match s = Some (c, a, b, t)"
  shows "\<exists>n. c = ''chr'' @ n \<and> digits n \<and> digits a \<and> digits b \<and> token t \<and>
           (s = locus_string n a b t \<or> s = locus_string n a b t @ [CHR 0x0A])"
proof -
  from assms obtain r1 g1 r2 r3 r4 r5 r6 r7 r8 where
    m: "match_lit ''chr'' s = Some r1" "match_plus is_digit r1 = Some (g1, r2)"
       "match_lit '':'' r2 = Some r3" "match_plus is_digit r3 = Some (a, r4)"
       "match_lit ''-'' r4 = Some r5" "match_plus is_digit r5 = Some (b, r6)"
       "match_lit ''_'' r6 = Some r7" "match_plus (\<lambda>c. \<not> is_space c) r7 = Some (t, r8)"
       "match_end r8" and c: "c = ''chr'' @ g1"
    by (auto simp: regex_match_def split: option.splits if_splits)
  have s: "s = locus_string g1 a b t @ r8"
    using m(1,3,5,7)[THEN match_lit_SomeD] m(2,4,6,8)[THEN match_plus_SomeD]
    by (simp add: locus_string_def)
  have "digits g1" "digits a" "digits b" "token t"
    using m(2,4,6,8)[THEN match_plus_SomeD] by (simp_all add: digits_def token_def)
  with s c m(9) show ?thesis
    by (auto simp: match_end_def)
qed

lemma digit_value_nonneg: "0 \<le> digit_value c"
  by (simp add: digit_value_def)

lemma foldl_digits_nonneg: "0 \<le> n \<Longrightarrow> 0 \<le> foldl (\<lambda>n c. 10 * n + digit_value c) n ds"
  by (induction ds arbitrary: n) (auto simp: digit_value_nonneg)

lemma int_of_digits_nonneg: "0 \<le> int_of_digits ds"
  by (simp add: int_of_digits_def foldl_digits_nonneg)

lemma int_of_digits_snoc: "int_of_digits (ds @ [d]) = 10 * int_of_digits ds + digit_value d"
  by (simp add: int_of_digits_def)

lemma parse_locus:
  assumes "digits n" "digits a" "digits b" "token t" "e = [] \<or> e = [CHR 0x0A]"
    and "length a \<le> int_max_str_digits" "length b \<le> int_max_str_digits"
  shows "parse_genomic_coordinate (locus_string n a b t @ e)
       = ([], Inr (''chr'' @ n, int_of_digits a, int_of_digits b, t))"
  using assms(6,7)
  by (simp add: parse_genomic_coordinate_def regex_match_locus [OF assms(1-5)] py_int_def)

lemma parse_locus_too_long:
  assumes "digits n" "digits a" "digits b" "token t" "e = [] \<or> e = [CHR 0x0A]"
    and "int_max_str_digits < length a \<or> int_max_str_digits < length b"
  shows "parse_genomic_coordinate (locus_string n a b t @ e) = ([], Inl ValueError)"
  using assms(6)
  by (auto simp: parse_genomic_coordinate_def regex_match_locus [OF assms(1-5)] py_int_def)

lemma regex_match_None:
  assumes "\<forall>n a b t. digits n \<and> digits a \<and> digits b \<and> token t \<longrightarrow>
             s \<noteq> locus_string n a b t \<and> s \<noteq> locus_string n a b t @ [CHR 0x0A]"
  shows "regex_match s = None"
proof (cases "regex_match s")
  case None
  then show ?thesis .
next
  case (Some g)
  obtain c a b t where "g = (c, a, b, t)" by (cases g) auto
  with Some regex_match_SomeD [of s c a b t] assms show ?thesis by blast
qed

text \<open>
  C6, as stated, fails. The string \<open>chr1:\<close>, then 4301 times the digit \<open>1\<close>, then
  \<open>-3_+\<close> is of the locus format, and the call ends with the \<open>ValueError\<close> of
  \<open>int(start)\<close>: nothing is returned.
\<close>

theorem C6_counterexample:
  "digits ''1'' \<and> digits (replicate 4301 (CHR ''1'')) \<and> digits ''3'' \<and> token ''+''
   \<and> ''chr1:'' @ replicate 4301 (CHR ''1'') @ ''-3_+''
       = locus_string ''1'' (replicate 4301 (CHR ''1'')) ''3'' ''+''
   \<and> parse_genomic_coordinate (''chr1:'' @ replicate 4301 (CHR ''1'') @ ''-3_+'')
       = ([], Inl ValueError)"
proof -
  have d: "digits ''1''" "digits (replicate 4301 (CHR ''1''))" "digits ''3''"
    by (simp_all add: digits_def list_all_iff is_digit_def)
  have t: "token ''+''"
    by (simp add: token_def is_space_def)
  have s: "''chr1:'' @ replicate 4301 (CHR ''1'') @ ''-3_+''
       = locus_string ''1'' (replicate 4301 (CHR ''1'')) ''3'' ''+'' @ []"
    by (simp add: locus_string_def)
  have "parse_genomic_coordinate (''chr1:'' @ replicate 4301 (CHR ''1'') @ ''-3_+'')
       = ([], Inl ValueError)"
    unfolding s by (rule parse_locus_too_long [OF d t]) (simp_all add: int_max_str_digits_def)
  with d t s show ?thesis by simp
qed

text \<open>
  C6, amended. A string of the locus format (the literal \<open>chr\<close>, digits, a colon,
  digits, a hyphen, digits, an underscore, a token without whitespace) whose start and
  end runs have at most 4300 digits each is parsed: the call prints nothing and returns
  the sequence name, the two digit runs read in base 10 (each further digit multiplies
  the value by ten and adds the digit), and the token as the strand. When one of the
  two runs has more than 4300 digits the call ends with \<open>ValueError\<close>.
  \<open>chr18:79930227-79930311_+\<close> gives \<open>(chr18, 79930227, 79930311, +)\<close>.
\<close>

theorem C6_locus_within_digit_limit_parses:
  "(digits n \<and> digits a \<and> digits b \<and> token t \<and> length a \<le> 4300 \<and> length b \<le> 4300 \<longrightarrow>
      parse_genomic_coordinate (locus_string n a b t)
        = ([], Inr (''chr'' @ n, int_of_digits a, int_of_digits b, t)))
   \<and> (digits n \<and> digits a \<and> digits b \<and> token t \<and> (4300 < length a \<or> 4300 < length b) \<longrightarrow>
      parse_genomic_coordinate (locus_string n a b t) = ([], Inl ValueError))
   \<and> int_max_str_digits = 4300
   \<and> int_of_digits [] = 0
   \<and> int_of_digits (ds @ [d]) = 10 * int_of_digits ds + digit_value d
   \<and> map digit_value ''0123456789'' = [0, 1, 2, 3, 4, 5, 6, 7, 8, 9]
   \<and> parse_genomic_coordinate ''chr18:79930227-79930311_+''
        = ([], Inr (''chr18'', 79930227, 79930311, ''+''))"
proof (intro conjI impI)
  assume "digits n \<and> digits a \<and> digits b \<and> token t \<and> length a \<le> 4300 \<and> length b \<le> 4300"
  then show "parse_genomic_coordinate (locus_string n a b t)
        = ([], Inr (''chr'' @ n, int_of_digits a, int_of_digits b, t))"
    using parse_locus [of n a b t "[]"] by (simp add: int_max_str_digits_def)
next
  assume "digits n \<and> digits a \<and> digits b \<and> token t \<and> (4300 < length a \<or> 4300 < length b)"
  then show "parse_genomic_coordinate (locus_string n a b t) = ([], Inl ValueError)"
    using parse_locus_too_long [of n a b t "[]"] by (simp add: int_max_str_digits_def)
next
  show "int_max_str_digits = 4300" by (simp add: int_max_str_digits_def)
  show "int_of_digits [] = 0" by (simp add: int_of_digits_def)
  show "int_of_digits (ds @ [d]) = 10 * int_of_digits ds + digit_value d"
    by (rule int_of_digits_snoc)
  show "map digit_value ''0123456789'' = [0, 1, 2, 3, 4, 5, 6, 7, 8, 9]"
    by (simp add: digit_value_def)
  show "parse_genomic_coordinate ''chr18:79930227-79930311_+''
        = ([], Inr (''chr18'', 79930227, 79930311, ''+''))"
    by (simp add: parse_genomic_coordinate_def regex_match_def match_plus_def match_end_def
        is_digit_def is_space_def int_of_digits_def digit_value_def py_int_def
        int_max_str_digits_def)
qed

theorem C6_witness:
  "parse_genomic_coordinate ''chr7:0012-345_-x'' = ([], Inr (''chr7'', 12, 345, ''-x''))
   \<and> parse_genomic_coordinate (locus_string ''7'' ''12'' (replicate 4301 (CHR ''0'')) ''-x'')
       = ([], Inl ValueError)"
proof -
  have h: "digits ''7'' \<and> digits ''0012'' \<and> digits ''345'' \<and> token ''-x'' \<and>
      length ''0012'' \<le> 4300 \<and> length ''345'' \<le> 4300"
    by (simp add: digits_def token_def is_digit_def is_space_def)
  have g: "digits ''7'' \<and> digits ''12'' \<and> digits (replicate 4301 (CHR ''0'')) \<and> token ''-x'' \<and>
      (4300 < length ''12'' \<or> 4300 < length (replicate 4301 (CHR ''0'')))"
    by (simp add: digits_def token_def is_digit_def is_space_def list_all_iff)
  note t = C6_locus_within_digit_limit_parses
  have 1: "parse_genomic_coordinate ''chr7:0012-345_-x'' = ([], Inr (''chr7'', 12, 345, ''-x''))"
    using t [THEN conjunct1, THEN mp, OF h]
    by (simp add: locus_string_def int_of_digits_def digit_value_def)
  show ?thesis
    by (rule conjI [OF 1 t [THEN conjunct2, THEN conjunct1, THEN mp, OF g]])
qed

text \<open>
  C7, as stated, fails. On \<open>badstring\<close> the parser prints a fixed line and raises
  \<open>SystemExit(1)\<close>: the failure is the same value for two different rejected strings,
  so it carries neither of them, and it ends the caller \<open>measure_transcription_abundance\<close>
  as well, before any track is opened.
\<close>

theorem C7_counterexample:
  "parse_genomic_coordinate ''badstring''
     = ([''Invalid genomic coordinate format''], Inl (SystemExit 1))
   \<and> parse_genomic_coordinate ''chr1:5-3'' = parse_genomic_coordinate ''badstring''
   \<and> measure_transcription_abundance (\<lambda>f. Some (\<lambda>c s e. Inr [Some (1::int)])) ''badstring''
        [''a.bw'', ''b.bw'']
     = ([''Invalid genomic coordinate format''], Inl (SystemExit 1))"
  by (simp add: measure_transcription_abundance_def parse_genomic_coordinate_def regex_match_def
      match_plus_def is_digit_def)

text \<open>
  C7, amended. For every string that is neither of the locus format nor of the locus
  format followed by one final newline, \<open>parse_genomic_coordinate\<close> prints
  \<open>Invalid genomic coordinate format\<close> and raises \<open>SystemExit(1)\<close>, which passes
  through \<open>measure_transcription_abundance\<close>; the copy in \<open>Analysis_Plot.py\<close> prints
  the same line and returns \<open>None\<close>.
\<close>

theorem C7_no_match_prints_and_exits:
  "(\<forall>n a b t. digits n \<and> digits a \<and> digits b \<and> token t \<longrightarrow>
       s \<noteq> locus_string n a b t \<and> s \<noteq> locus_string n a b t @ [CHR 0x0A]) \<longrightarrow>
   parse_genomic_coordinate s = ([''Invalid genomic coordinate format''], Inl (SystemExit 1))
   \<and> parse_genomic_coordinate_plot s = ([''Invalid genomic coordinate format''], Inr None)
   \<and> measure_transcription_abundance bw_open s bigwig_files
       = ([''Invalid genomic coordinate format''], Inl (SystemExit 1))"
proof
  assume "\<forall>n a b t. digits n \<and> digits a \<and> digits b \<and> token t \<longrightarrow>
       s \<noteq> locus_string n a b t \<and> s \<noteq> locus_string n a b t @ [CHR 0x0A]"
  then have "regex_match s = None" by (rule regex_match_None)
  then show "parse_genomic_coordinate s = ([''Invalid genomic coordinate format''], Inl (SystemExit 1))
   \<and> parse_genomic_coordinate_plot s = ([''Invalid genomic coordinate format''], Inr None)
   \<and> measure_transcription_abundance bw_open s bigwig_files
       = ([''Invalid genomic coordinate format''], Inl (SystemExit 1))"
    by (simp add: parse_genomic_coordinate_def parse_genomic_coordinate_plot_def
        measure_transcription_abundance_def)
qed

theorem C7_witness:
  "parse_genomic_coordinate ''badstring''
     = ([''Invalid genomic coordinate format''], Inl (SystemExit 1))
   \<and> parse_genomic_coordinate_plot ''badstring''
       = ([''Invalid genomic coordinate format''], Inr None)
   \<and> measure_transcription_abundance (\<lambda>f. None :: int bigwig option) ''badstring'' [''a.bw'']
       = ([''Invalid genomic coordinate format''], Inl (SystemExit 1))"
proof -
  have h: "\<forall>n a b t. digits n \<and> digits a \<and> digits b \<and> token t \<longrightarrow>
       ''badstring'' \<noteq> locus_string n a b t \<and> ''badstring'' \<noteq> locus_string n a b t @ [CHR 0x0A]"
    by (simp add: locus_string_def)
  show ?thesis by (rule C7_no_match_prints_and_exits [THEN mp, OF h])
qed

text \<open>
  C8, as stated, fails: \<open>chr1:5-3_+\<close> is parsed, with start 5 and end 3.
\<close>

theorem C8_counterexample:
  "parse_genomic_coordinate ''chr1:5-3_+'' = ([], Inr (''chr1'', 5, 3, ''+''))
   \<and> \<not> (5::int) \<le> 3"
  by (simp add: parse_genomic_coordinate_def regex_match_def match_plus_def match_end_def
        is_digit_def is_space_def int_of_digits_def digit_value_def py_int_def
        int_max_str_digits_def)

text \<open>
  C8, amended. A locus returned by the parser has a start and an end that are not
  negative: they are the base-10 values of the two digit runs of the input, and the
  parser does not compare them, so the start is at most the end exactly when the
  input's runs are so ordered.
\<close>

theorem C8_parsed_bounds_are_decoded_fields:
  "parse_genomic_coordinate s = (out, Inr (chromosome, start, end, strand)) \<longrightarrow>
     0 \<le> start \<and> 0 \<le> end \<and>
     (\<exists>n a b. digits n \<and> digits a \<and> digits b \<and> token strand \<and>
        (s = locus_string n a b strand \<or> s = locus_string n a b strand @ [CHR 0x0A]) \<and>
        chromosome = ''chr'' @ n \<and> start = int_of_digits a \<and> end = int_of_digits b \<and>
        (start \<le> end) = (int_of_digits a \<le> int_of_digits b))"
proof
  assume p: "parse_genomic_coordinate s = (out, Inr (chromosome, start, end, strand))"
  then obtain a b where m: "regex_match s = Some (chromosome, a, b, strand)"
    and v: "start = int_of_digits a" "end = int_of_digits b"
    by (auto simp: parse_genomic_coordinate_def py_int_def
        split: option.splits sum.splits if_splits)
  from regex_match_SomeD [OF m] v
  show "0 \<le> start \<and> 0 \<le> end \<and>
     (\<exists>n a b. digits n \<and> digits a \<and> digits b \<and> token strand \<and>
        (s = locus_string n a b strand \<or> s = locus_string n a b strand @ [CHR 0x0A]) \<and>
        chromosome = ''chr'' @ n \<and> start = int_of_digits a \<and> end = int_of_digits b \<and>
        (start \<le> end) = (int_of_digits a \<le> int_of_digits b))"
    by (auto simp: int_of_digits_nonneg)
qed

theorem C8_witness:
  "parse_genomic_coordinate ''chr2:10-20_-'' = ([], Inr (''chr2'', 10, 20, ''-''))
   \<and> (0::int) \<le> 10 \<and> (0::int) \<le> 20"
proof -
  have h: "parse_genomic_coordinate ''chr2:10-20_-'' = ([], Inr (''chr2'', 10, 20, ''-''))"
    by (simp add: parse_genomic_coordinate_def regex_match_def match_plus_def match_end_def
        is_digit_def is_space_def int_of_digits_def digit_value_def py_int_def
        int_max_str_digits_def)
  note t = C8_parsed_bounds_are_decoded_fields [THEN mp, OF h]
  show ?thesis
    by (rule conjI [OF h conjI [OF t [THEN conjunct1] t [THEN conjunct2, THEN conjunct1]]])
qed

section \<open>Properties of the abundance sum\<close>

lemma foldl_plus_sum_list: "foldl (+) a xs = a + sum_list (xs :: 'a::monoid_add list)"
  by (induction xs arbitrary: a) (simp_all add: add.assoc)

lemma py_sum_sum_list: "py_sum xs = sum_list xs"
  by (simp add: py_sum_def foldl_plus_sum_list)

lemma sum_list_present:
  "sum_list (present vs) = sum_list (map (\<lambda>v. case v of None \<Rightarrow> 0 | Some x \<Rightarrow> x) vs)"
  by (induction vs rule: present.induct) simp_all

lemma track_abundance_sum: "track_abundance vs = sum_list (present vs)"
  by (simp add: track_abundance_def py_sum_sum_list)

text \<open>
  C9. The number computed for one track is the sum of the values that are present; an
  absent value counts as zero; an empty sequence of values gives 0; the values
  \<open>[5, None, 3, None]\<close> give 8. With a coordinate that parses and a track that opens,
  \<open>measure_transcription_abundance\<close> on that one track returns that number.
\<close>

theorem C9_abundance_sums_present_values:
  "track_abundance values = sum_list (map (\<lambda>v. case v of None \<Rightarrow> 0 | Some x \<Rightarrow> x) values)
   \<and> track_abundance values = sum_list (present values)
   \<and> track_abundance [] = 0
   \<and> track_abundance [Some 5, None, Some 3, None] = (8::int)
   \<and> (parse_genomic_coordinate c = (out, Inr (chromosome, start, end, strand)) \<and>
        bw_open f = Some bw \<and> bw chromosome start end = Inr values \<longrightarrow>
        measure_transcription_abundance bw_open c [f] = (out, Inr [track_abundance values]))"
  by (simp add: track_abundance_sum sum_list_present [symmetric]
      measure_transcription_abundance_def)

theorem C9_witness:
  "measure_transcription_abundance
     (\<lambda>f. if f = ''a.bw'' then Some (\<lambda>c s e. if s \<le> e then Inr [Some 5, None, Some 3, None]
                                            else Inl RuntimeError)
          else None)
     ''chr1:0-4_+'' [''a.bw''] = ([], Inr [8::int])"
proof -
  have p: "parse_genomic_coordinate ''chr1:0-4_+'' = ([], Inr (''chr1'', 0, 4, ''+''))"
    by (simp add: parse_genomic_coordinate_def regex_match_def match_plus_def match_end_def
        is_digit_def is_space_def int_of_digits_def digit_value_def py_int_def
        int_max_str_digits_def)
  let ?bw = "\<lambda>(c::string) (s::int) (e::int).
     if s \<le> e then Inr [Some (5::int), None, Some 3, None] else Inl RuntimeError"
  let ?open = "\<lambda>f. if f = ''a.bw'' then Some ?bw else None"
  have h: "parse_genomic_coordinate ''chr1:0-4_+'' = ([], Inr (''chr1'', 0, 4, ''+'')) \<and>
        ?open ''a.bw'' = Some ?bw \<and> ?bw ''chr1'' 0 4 = Inr [Some 5, None, Some 3, None]"
    using p by simp
  note t = C9_abundance_sums_present_values
    [of "[Some (5::int), None, Some 3, None]" "''chr1:0-4_+''" "[]" "''chr1''" 0 4 "''+''"
        ?open "''a.bw''" ?bw]
  from t [THEN conjunct2, THEN conjunct2, THEN conjunct2, THEN conjunct2, THEN mp, OF h]
    t [THEN conjunct2, THEN conjunct2, THEN conjunct2, THEN conjunct1]
  show ?thesis by simp
qed

section \<open>The feed reader on examples\<close>

text \<open>
  A feed of a header and two records of fifteen fields, the later start first: the
  records are read, sorted and merged. A record with too few fields ends the call with
  \<open>IndexError\<close>; an empty feed has no record.
\<close>

lemma feed_example:
  assumes "to_int ''100'' = Some 100" "to_int ''150'' = Some 150" "to_int ''200'' = Some 200"
    "to_float ''1.0'' = Some (Fin 1)" "to_float ''2'' = Some (Fin 2)"
  shows "identify_exon_edges to_int to_float c
    (''h'' @ [CHR 0x0A] @
     ''a'' @ [CHR 0x09] @ ''b'' @ [CHR 0x09] @ ''c'' @ [CHR 0x09] @ ''150'' @ [CHR 0x09] @ ''200''
       @ [CHR 0x09] @ ''5'' @ [CHR 0x09] @ ''6'' @ [CHR 0x09] @ ''7'' @ [CHR 0x09] @ ''8''
       @ [CHR 0x09] @ ''9'' @ [CHR 0x09] @ ''10'' @ [CHR 0x09] @ ''11'' @ [CHR 0x09] @ ''12''
       @ [CHR 0x09] @ ''13'' @ [CHR 0x09] @ ''2'' @ [CHR 0x0A] @
     ''a'' @ [CHR 0x09] @ ''b'' @ [CHR 0x09] @ ''c'' @ [CHR 0x09] @ ''100'' @ [CHR 0x09] @ ''150''
       @ [CHR 0x09] @ ''5'' @ [CHR 0x09] @ ''6'' @ [CHR 0x09] @ ''7'' @ [CHR 0x09] @ ''8''
       @ [CHR 0x09] @ ''9'' @ [CHR 0x09] @ ''10'' @ [CHR 0x09] @ ''11'' @ [CHR 0x09] @ ''12''
       @ [CHR 0x09] @ ''13'' @ [CHR 0x09] @ ''1.0'' @ [CHR 0x0A])
    = Inr [(100, Some 200)]"
  using assms
  by (simp add: identify_exon_edges_def py_strip_def py_split_def is_space_def
      read_junction_def field_def exon_edges_of_junctions_def python_sort_def close_open_def
      initial_state_def)

lemma feed_short_line:
  "identify_exon_edges to_int to_float c (''h'' @ [CHR 0x0A] @ ''a'' @ [CHR 0x09] @ ''b'')
     = Inl IndexError"
  by (simp add: identify_exon_edges_def py_strip_def py_split_def is_space_def
      read_junction_def field_def)

lemma feed_empty: "identify_exon_edges to_int to_float c [] = Inr []"
  by (simp add: identify_exon_edges_def py_strip_def py_split_def
      exon_edges_of_junctions_def python_sort_def close_open_def initial_state_def)

section \<open>The coordinate argument of the edge finder\<close>

text \<open>
  C10. \<open>identify_exon_edges\<close> never reads its first argument: two calls on the same
  junction data return the same result (the same edges, or the same exception)
  whatever the two coordinate strings are. The same holds for the copy in
  \<open>Genomic_Anlysis_Tool_V2.py\<close>.
\<close>

theorem C10_coordinate_never_read:
  "identify_exon_edges to_int to_float c1 d = identify_exon_edges to_int to_float c2 d
   \<and> identify_exon_edges_V2 to_int to_float c1 d = identify_exon_edges_V2 to_int to_float c2 d"
  by (simp add: identify_exon_edges_def identify_exon_edges_V2_def)

end
